theory Spec2Isabelle
  imports Complex_Main
begin

section \<open>Python values\<close>

text \<open>
  The notebook \<^verbatim>\<open>The Typing package and usages.ipynb\<close> is a sequence of small
  Python functions and classes. Annotations are not enforced at run time, so a function
  whose behaviour depends on the run-time type of its argument (\<^verbatim>\<open>process\<close>) is
  modelled over a datatype of Python values; a function that does not look at the type
  of its argument takes the annotated type directly (\<^verbatim>\<open>int\<close> is Python's unbounded
  integer, \<^verbatim>\<open>str\<close> is a \<open>string\<close>).

  A float is the rational it denotes, an infinity or NaN; only the order on floats is
  used (by \<^verbatim>\<open>filter_data\<close>), and the order on finite floats is the order on the
  rationals they denote.

  A call returns a value or raises an exception. Where a library operation takes a path
  that is not described here, the outcome says so instead of inventing a result.
\<close>

datatype pyfloat = Fin rat | PosInf | NegInf | NaN

datatype pyval =
    PyNone
  | PyBool bool
  | PyInt int
  | PyFloat pyfloat
  | PyStr string
  | PyList "pyval list"

datatype pytype = NoneType | BoolT | IntT | FloatT | StrT | ListT

fun type_of :: "pyval \<Rightarrow> pytype" where
  "type_of PyNone = NoneType"
| "type_of (PyBool _) = BoolT"
| "type_of (PyInt _) = IntT"
| "type_of (PyFloat _) = FloatT"
| "type_of (PyStr _) = StrT"
| "type_of (PyList _) = ListT"

text \<open>\<^verbatim>\<open>bool\<close> is a subclass of \<^verbatim>\<open>int\<close>; the other built-in types above are unrelated.\<close>

definition issubclass :: "pytype \<Rightarrow> pytype \<Rightarrow> bool" where
  "issubclass c d = (c = d \<or> (c = BoolT \<and> d = IntT))"

definition isinstance :: "pyval \<Rightarrow> pytype \<Rightarrow> bool" where
  "isinstance v t = issubclass (type_of v) t"

subsection \<open>Outcomes of a call\<close>

datatype error = KeyError string | TypeError | ValueError

datatype 'a outcome = Returns 'a | Raises error | NotModelled

definition and_then :: "'a outcome \<Rightarrow> ('a \<Rightarrow> 'b outcome) \<Rightarrow> 'b outcome" where
  "and_then r f = (case r of Returns x \<Rightarrow> f x | Raises e \<Rightarrow> Raises e | NotModelled \<Rightarrow> NotModelled)"

subsection \<open>Conversion to text\<close>

text \<open>
  \<^verbatim>\<open>str\<close> of an integer is its decimal representation, with a leading minus sign
  when it is negative. Since Python 3.11, the version the notebook's metadata names,
  the conversion raises \<^verbatim>\<open>ValueError\<close> when the integer has more digits than
  \<^verbatim>\<open>sys.get_int_max_str_digits()\<close>, which is 4300 unless the program changes it; the
  notebook does not.
\<close>

fun str_nat :: "nat \<Rightarrow> string" where
  "str_nat n =
     (if n < 10 then [''0123456789'' ! n]
      else str_nat (n div 10) @ [''0123456789'' ! (n mod 10)])"

declare str_nat.simps [simp del]

definition decimal :: "int \<Rightarrow> string" where
  "decimal i = (if i < 0 then CHR ''-'' # str_nat (nat (- i)) else str_nat (nat i))"

definition int_max_str_digits :: nat where
  "int_max_str_digits = 4300"

definition str_int :: "int \<Rightarrow> string outcome" where
  "str_int i =
     (if int_max_str_digits < length (str_nat (nat \<bar>i\<bar>)) then Raises ValueError
      else Returns (decimal i))"

definition str_bool :: "bool \<Rightarrow> string" where
  "str_bool b = (if b then ''True'' else ''False'')"

text \<open>
  An argument annotated \<^verbatim>\<open>int\<close> is an instance of \<^verbatim>\<open>int\<close>: an integer proper or,
  \<^verbatim>\<open>bool\<close> being a subclass, one of \<^verbatim>\<open>True\<close> and \<^verbatim>\<open>False\<close>, whose text is their
  name.
\<close>

datatype pyint = IntObj int | BoolObj bool

fun str_pyint :: "pyint \<Rightarrow> string outcome" where
  "str_pyint (IntObj i) = str_int i"
| "str_pyint (BoolObj b) = Returns (str_bool b)"

text \<open>
  A replacement field \<^verbatim>\<open>{value}\<close> of an f-string with no format specification is
  \<^verbatim>\<open>format(value, '')\<close>, which is \<^verbatim>\<open>str(value)\<close> for the built-in types. No function
  of the notebook formats a float or a list, and their text is not described.
\<close>

fun format_value :: "pyval \<Rightarrow> string outcome" where
  "format_value PyNone = Returns ''None''"
| "format_value (PyBool b) = Returns (str_bool b)"
| "format_value (PyInt i) = str_int i"
| "format_value (PyStr s) = Returns s"
| "format_value (PyFloat x) = NotModelled"
| "format_value (PyList xs) = NotModelled"

fun format_optional_str :: "string option \<Rightarrow> string" where
  "format_optional_str None = ''None''"
| "format_optional_str (Some s) = s"

text \<open>Truth value of an \<^verbatim>\<open>Optional[str]\<close>: \<^verbatim>\<open>None\<close> and the empty string are false.\<close>

fun truthy_optional_str :: "string option \<Rightarrow> bool" where
  "truthy_optional_str None = False"
| "truthy_optional_str (Some s) = (s \<noteq> [])"

text \<open>
  Reading a decimal text back (\<^verbatim>\<open>int(s)\<close>), used to say what the text of an integer
  is.
\<close>

definition digit_value :: "char \<Rightarrow> nat" where
  "digit_value c = of_char c - 48"

definition nat_of_digits :: "string \<Rightarrow> nat" where
  "nat_of_digits s = foldl (\<lambda>a c. 10 * a + digit_value c) 0 s"

definition int_of_decimal :: "string \<Rightarrow> int" where
  "int_of_decimal s =
     (if s \<noteq> [] \<and> hd s = CHR ''-'' then - int (nat_of_digits (tl s))
      else int (nat_of_digits s))"

subsection \<open>Dictionaries\<close>

text \<open>
  \<^verbatim>\<open>d.get(key, default)\<close> returns the value stored under \<^verbatim>\<open>key\<close>, or
  \<^verbatim>\<open>default\<close> when there is none; \<^verbatim>\<open>d.get(key)\<close> is \<^verbatim>\<open>d.get(key, None)\<close>. It never
  raises on a hashable key.
\<close>

definition dict_get :: "('k \<rightharpoonup> pyval) \<Rightarrow> 'k \<Rightarrow> pyval \<Rightarrow> pyval" where
  "dict_get d key dflt = (case d key of Some v \<Rightarrow> v | None \<Rightarrow> dflt)"

section \<open>Functions of the notebook\<close>

text \<open>
  \<^verbatim>\<open>def add(a: int, b: int) -> int:
    return a + b\<close>
\<close>

definition add :: "int \<Rightarrow> int \<Rightarrow> int" where
  "add a b = a + b"

text \<open>
  \<^verbatim>\<open>def get_user_id(username: str) -> Optional[int]:
    users = {"Alice": 1, "Bob": 2}
    return users.get(username)\<close>
\<close>

definition users_by_name :: "string \<rightharpoonup> pyval" where
  "users_by_name = [''Alice'' \<mapsto> PyInt 1, ''Bob'' \<mapsto> PyInt 2]"

definition get_user_id :: "string \<Rightarrow> pyval" where
  "get_user_id username = dict_get users_by_name username PyNone"

text \<open>
  \<^verbatim>\<open>def process(value: Union[int, str]) -> str:
    if isinstance(value, int):
        return f"Processing number {value}"
    elif isinstance(value, str):
        return f"Processing string '{value}'"\<close>

  A Python function that reaches the end of its body returns \<^verbatim>\<open>None\<close>.
\<close>

definition process :: "pyval \<Rightarrow> pyval outcome" where
  "process v =
     (if isinstance v IntT then
        and_then (format_value v) (\<lambda>t. Returns (PyStr (''Processing number '' @ t)))
      else if isinstance v StrT then
        and_then (format_value v)
          (\<lambda>t. Returns (PyStr (''Processing string '' @ [CHR 0x27] @ t @ [CHR 0x27])))
      else Returns PyNone)"

text \<open>
  \<^verbatim>\<open>UserID = NewType('UserID', int)

def get_user_name(user_id: UserID) -> str:
    users = {UserID(1): "Alice", UserID(2): "Bob"}
    return users.get(user_id, "Unknown")\<close>

  At run time \<^verbatim>\<open>UserID\<close> is the identity function.
\<close>

definition UserID :: "int \<Rightarrow> int" where
  "UserID i = i"

definition users_by_id :: "int \<rightharpoonup> pyval" where
  "users_by_id = [UserID 1 \<mapsto> PyStr ''Alice'', UserID 2 \<mapsto> PyStr ''Bob'']"

definition get_user_name :: "int \<Rightarrow> pyval" where
  "get_user_name user_id = dict_get users_by_id user_id (PyStr ''Unknown'')"

section \<open>Classes of the notebook\<close>

text \<open>
  An object is the record of its attributes. A method takes the object and returns the
  outcome of the call together with the object as the method leaves it, so that an
  assignment to an attribute inside a method would show in the second component.
\<close>

text \<open>
  \<^verbatim>\<open>class Person:
    def __init__(self, name: str, age: int):
        self.name: str = name
        self.age: int = age

    def introduce(self) -> str:
        return f"My name is {self.name}, and I am {self.age} years old."\<close>
\<close>

record Person =
  name :: string
  age :: pyint

definition Person_init :: "string \<Rightarrow> pyint \<Rightarrow> Person" where
  "Person_init n a = \<lparr>name = n, age = a\<rparr>"

definition Person_introduce :: "Person \<Rightarrow> string outcome \<times> Person" where
  "Person_introduce self =
     (and_then (str_pyint (age self))
        (\<lambda>t. Returns (''My name is '' @ name self @ '', and I am '' @ t @ '' years old.'')),
      self)"

text \<open>
  \<^verbatim>\<open>class Classroom:
    def __init__(self, students: List[Person]):
        self.students: List[Person] = students

    def get_student_names(self) -> List[str]:
        return [student.name for student in self.students]\<close>
\<close>

record Classroom =
  students :: "Person list"

definition Classroom_init :: "Person list \<Rightarrow> Classroom" where
  "Classroom_init ps = \<lparr>students = ps\<rparr>"

definition Classroom_get_student_names :: "Classroom \<Rightarrow> string list \<times> Classroom" where
  "Classroom_get_student_names self = (map name (students self), self)"

text \<open>
  \<^verbatim>\<open>class PersonWithNickname:
    def __init__(self, name: str, age: int, nickname: Optional[str] = None):
        self.name: str = name
        self.age: int = age
        self.nickname: Optional[str] = nickname

    def introduce(self) -> str:
        if self.nickname:
            return f"My name is {self.name}, but you can call me {self.nickname}."
        else:
            return f"My name is {self.name}, and I am {self.age} years old."\<close>

  The attributes \<^verbatim>\<open>name\<close> and \<^verbatim>\<open>age\<close> of this class are \<open>name_n\<close> and \<open>age_n\<close>
  here, the names without suffix being those of \<^verbatim>\<open>Person\<close>.
\<close>

record PersonWithNickname =
  name_n :: string
  age_n :: pyint
  nickname :: "string option"

definition PersonWithNickname_init :: "string \<Rightarrow> pyint \<Rightarrow> string option \<Rightarrow> PersonWithNickname" where
  "PersonWithNickname_init n a nick = \<lparr>name_n = n, age_n = a, nickname = nick\<rparr>"

definition PersonWithNickname_introduce ::
    "PersonWithNickname \<Rightarrow> string outcome \<times> PersonWithNickname" where
  "PersonWithNickname_introduce self =
     (if truthy_optional_str (nickname self) then
        (Returns (''My name is '' @ name_n self @ '', but you can call me ''
           @ format_optional_str (nickname self) @ ''.''), self)
      else
        (and_then (str_pyint (age_n self))
           (\<lambda>t. Returns (''My name is '' @ name_n self @ '', and I am '' @ t
              @ '' years old.'')), self))"

text \<open>
  \<^verbatim>\<open>T = TypeVar('T')

class Box(Generic[T]):
    def __init__(self, content: T):
        self.content: T = content

    def get_content(self) -> T:
        return self.content\<close>
\<close>

record 'a Box =
  content :: 'a

definition Box_init :: "'a \<Rightarrow> 'a Box" where
  "Box_init c = \<lparr>content = c\<rparr>"

definition Box_get_content :: "'a Box \<Rightarrow> 'a \<times> 'a Box" where
  "Box_get_content self = (content self, self)"

text \<open>
  \<^verbatim>\<open>StudentList = List[Person]

class School:
    def __init__(self, students: StudentList):
        self.students: StudentList = students

    def get_total_students(self) -> int:
        return len(self.students)\<close>

  The attribute \<^verbatim>\<open>students\<close> of this class is \<open>students_s\<close> here.
\<close>

type_synonym StudentList = "Person list"

record School =
  students_s :: StudentList

definition School_init :: "StudentList \<Rightarrow> School" where
  "School_init ps = \<lparr>students_s = ps\<rparr>"

definition School_get_total_students :: "School \<Rightarrow> int \<times> School" where
  "School_get_total_students self = (int (length (students_s self)), self)"

section \<open>Data frames\<close>

text \<open>
  \<^verbatim>\<open>def filter_data(df: pd.DataFrame, threshold: float) -> pd.DataFrame:
    """Filters the DataFrame based on a threshold value."""
    return df[df['value'] > threshold]\<close>

  The data frames described are those that \<^verbatim>\<open>load_data\<close> (\<^verbatim>\<open>pd.read_csv\<close>)
  produces. Column labels are strings; each row has an integer label and one cell per
  column. A cell is an entry of an integer column (\<^verbatim>\<open>int64\<close>), of a float column
  (\<^verbatim>\<open>float64\<close>, a missing entry being NaN), of a boolean column, or a string of an
  \<^verbatim>\<open>object\<close> column (whose missing entries are NaN floats).
\<close>

datatype cell = IntCell int | FloatCell pyfloat | BoolCell bool | StrCell string

record Row =
  label :: int
  cells :: "cell list"

record DataFrame =
  columns :: "string list"
  rows :: "Row list"

text \<open>The order of Python floats: every comparison with NaN is false.\<close>

fun float_gt :: "pyfloat \<Rightarrow> pyfloat \<Rightarrow> bool" where
  "float_gt NaN _ = False"
| "float_gt _ NaN = False"
| "float_gt (Fin a) (Fin b) = (b < a)"
| "float_gt (Fin a) NegInf = True"
| "float_gt (Fin a) PosInf = False"
| "float_gt PosInf (Fin b) = True"
| "float_gt PosInf NegInf = True"
| "float_gt PosInf PosInf = False"
| "float_gt NegInf _ = False"

text \<open>
  An integer column is compared with a float after conversion to \<^verbatim>\<open>float64\<close>: the
  integer is rounded to 53 significant bits, to nearest and to even on a tie. Integers
  of magnitude up to \<open>2 ^ 53\<close> are unchanged.
\<close>

fun bit_length :: "nat \<Rightarrow> nat" where
  "bit_length n = (if n = 0 then 0 else Suc (bit_length (n div 2)))"

declare bit_length.simps [simp del]

definition round_to_53_bits :: "nat \<Rightarrow> nat" where
  "round_to_53_bits m =
     (let e = bit_length m - 53; q = m div 2 ^ e; r = m mod 2 ^ e
      in if 2 ^ e < 2 * r \<or> (2 * r = 2 ^ e \<and> odd q) then (q + 1) * 2 ^ e else q * 2 ^ e)"

definition float64_of_int :: "int \<Rightarrow> int" where
  "float64_of_int v = sgn v * int (round_to_53_bits (nat \<bar>v\<bar>))"

fun to_float64 :: "cell \<Rightarrow> pyfloat option" where
  "to_float64 (IntCell v) = Some (Fin (of_int (float64_of_int v)))"
| "to_float64 (FloatCell x) = Some x"
| "to_float64 (BoolCell b) = Some (Fin (if b then 1 else 0))"
| "to_float64 (StrCell s) = None"

text \<open>
  \<^verbatim>\<open>series > threshold\<close>. Against a NaN threshold pandas answers false at every
  position without looking at the entries. Otherwise it compares element by element,
  and at a string raises \<^verbatim>\<open>TypeError\<close>, since Python does not order a string against
  a float.
\<close>

fun cell_gt :: "cell \<Rightarrow> pyfloat \<Rightarrow> bool outcome" where
  "cell_gt c t = (case to_float64 c of None \<Rightarrow> Raises TypeError | Some x \<Rightarrow> Returns (float_gt x t))"

fun compare_each :: "cell list \<Rightarrow> pyfloat \<Rightarrow> bool list outcome" where
  "compare_each [] t = Returns []"
| "compare_each (c # cs) t =
     and_then (cell_gt c t) (\<lambda>b. and_then (compare_each cs t) (\<lambda>bs. Returns (b # bs)))"

definition series_gt :: "cell list \<Rightarrow> pyfloat \<Rightarrow> bool list outcome" where
  "series_gt s t = (if t = NaN then Returns (map (\<lambda>c. False) s) else compare_each s t)"

text \<open>
  \<^verbatim>\<open>df[key]\<close> with a string key. \<^verbatim>\<open>get_loc\<close> gives the positions of the label among
  the columns. With no such column the lookup raises \<^verbatim>\<open>KeyError(key)\<close>; with one it
  returns that column as a series; with several pandas returns a frame of those
  columns, a path that is not described here.
\<close>

fun get_loc :: "string list \<Rightarrow> string \<Rightarrow> nat list" where
  "get_loc [] key = []"
| "get_loc (c # cs) key = (if c = key then [0] else []) @ map Suc (get_loc cs key)"

definition getitem_column :: "DataFrame \<Rightarrow> string \<Rightarrow> cell list outcome" where
  "getitem_column df key =
     (case get_loc (columns df) key of
        [] \<Rightarrow> Raises (KeyError key)
      | [i] \<Rightarrow> Returns (map (\<lambda>r. cells r ! i) (rows df))
      | _ \<Rightarrow> NotModelled)"

text \<open>
  \<^verbatim>\<open>df[mask]\<close> with a boolean series that has the index of the frame keeps the rows
  at which the mask is true, in their order. A mask with another index is aligned first,
  which is not described here.
\<close>

definition getitem_mask :: "DataFrame \<Rightarrow> bool list \<Rightarrow> DataFrame outcome" where
  "getitem_mask df msk =
     (if length msk \<noteq> length (rows df) then NotModelled
      else Returns (df\<lparr>rows := map fst (filter snd (zip (rows df) msk))\<rparr>))"

definition filter_data :: "DataFrame \<Rightarrow> pyfloat \<Rightarrow> DataFrame outcome" where
  "filter_data df threshold =
     and_then (getitem_column df ''value'')
       (\<lambda>series. and_then (series_gt series threshold) (\<lambda>msk. getitem_mask df msk))"

text \<open>
  The words of the specification for \<^verbatim>\<open>filter_data\<close>: an entry is a number unless it
  is a string; a number exceeds the threshold when its value is strictly greater.
\<close>

fun is_number :: "cell \<Rightarrow> bool" where
  "is_number (StrCell _) = False"
| "is_number _ = True"

fun entry_value :: "cell \<Rightarrow> pyfloat option" where
  "entry_value (IntCell v) = Some (Fin (of_int v))"
| "entry_value (FloatCell x) = Some x"
| "entry_value (BoolCell b) = Some (Fin (if b then 1 else 0))"
| "entry_value (StrCell s) = None"

definition exceeds :: "pyfloat \<Rightarrow> cell \<Rightarrow> bool" where
  "exceeds t c = (case entry_value c of None \<Rightarrow> False | Some x \<Rightarrow> float_gt x t)"

text \<open>The same test on the entry as the comparison converts it.\<close>

definition exceeds_as_float64 :: "pyfloat \<Rightarrow> cell \<Rightarrow> bool" where
  "exceeds_as_float64 t c = (case to_float64 c of None \<Rightarrow> False | Some x \<Rightarrow> float_gt x t)"

text \<open>Entries that the conversion to \<^verbatim>\<open>float64\<close> leaves unchanged.\<close>

fun exact_cell :: "cell \<Rightarrow> bool" where
  "exact_cell (IntCell v) = (\<bar>v\<bar> \<le> 2 ^ 53)"
| "exact_cell _ = True"

text \<open>Frames used as concrete inputs below.\<close>

definition readings :: DataFrame where
  "readings =
     \<lparr>columns = [''id'', ''value''],
      rows = [\<lparr>label = 0, cells = [StrCell ''a'', FloatCell (Fin 5)]\<rparr>,
              \<lparr>label = 1, cells = [StrCell ''b'', FloatCell (Fin 15)]\<rparr>,
              \<lparr>label = 2, cells = [StrCell ''c'', FloatCell NaN]\<rparr>,
              \<lparr>label = 3, cells = [StrCell ''d'', FloatCell (Fin (21 / 2))]\<rparr>,
              \<lparr>label = 4, cells = [StrCell ''e'', FloatCell (Fin 10)]\<rparr>]\<rparr>"

definition counts :: DataFrame where
  "counts =
     \<lparr>columns = [''value'', ''ok''],
      rows = [\<lparr>label = 0, cells = [IntCell 11, BoolCell True]\<rparr>,
              \<lparr>label = 1, cells = [IntCell 10, BoolCell False]\<rparr>,
              \<lparr>label = 2, cells = [IntCell (- 3), BoolCell True]\<rparr>,
              \<lparr>label = 3, cells = [IntCell 40, BoolCell True]\<rparr>]\<rparr>"

definition no_value_column :: DataFrame where
  "no_value_column =
     \<lparr>columns = [''id'', ''amount''],
      rows = [\<lparr>label = 0, cells = [StrCell ''a'', FloatCell (Fin 15)]\<rparr>]\<rparr>"

definition text_value_column :: DataFrame where
  "text_value_column =
     \<lparr>columns = [''value''],
      rows = [\<lparr>label = 0, cells = [StrCell ''high'']\<rparr>]\<rparr>"

definition large_count :: DataFrame where
  "large_count =
     \<lparr>columns = [''value''],
      rows = [\<lparr>label = 0, cells = [IntCell (2 ^ 53 + 1)]\<rparr>]\<rparr>"

section \<open>Properties\<close>

subsection \<open>Conversion to text\<close>

lemma digit_value_digit: "d < 10 \<Longrightarrow> digit_value (''0123456789'' ! d) = d"
proof -
  assume "d < 10"
  then have "d \<in> {0, 1, 2, 3, 4, 5, 6, 7, 8, 9}" by auto
  then show ?thesis by (auto simp: digit_value_def)
qed

lemma digit_not_minus: "d < 10 \<Longrightarrow> ''0123456789'' ! d \<noteq> CHR ''-''"
proof -
  assume "d < 10"
  then have "d \<in> {0, 1, 2, 3, 4, 5, 6, 7, 8, 9}" by auto
  then show ?thesis by auto
qed

lemma nat_of_digits_snoc: "nat_of_digits (s @ [c]) = 10 * nat_of_digits s + digit_value c"
  by (simp add: nat_of_digits_def)

lemma nat_of_digits_str_nat: "nat_of_digits (str_nat n) = n"
proof (induction n rule: str_nat.induct)
  case (1 n)
  show ?case
  proof (cases "n < 10")
    case True
    then show ?thesis
      using nat_of_digits_snoc [of "[]" "''0123456789'' ! n"]
      by (simp add: str_nat.simps [of n] digit_value_digit nat_of_digits_def)
  next
    case False
    then have "nat_of_digits (str_nat (n div 10)) = n div 10"
      using 1 by simp
    with False show ?thesis
      by (simp add: str_nat.simps [of n] nat_of_digits_snoc digit_value_digit)
  qed
qed

lemma str_nat_head: "str_nat n \<noteq> [] \<and> hd (str_nat n) \<noteq> CHR ''-''"
proof (induction n rule: str_nat.induct)
  case (1 n)
  show ?case
  proof (cases "n < 10")
    case True
    then show ?thesis
      by (simp add: str_nat.simps [of n] digit_not_minus)
  next
    case False
    with 1 show ?thesis
      by (simp add: str_nat.simps [of n])
  qed
qed

lemma int_of_decimal_decimal: "int_of_decimal (decimal i) = i"
  using str_nat_head [of "nat i"]
  by (simp add: int_of_decimal_def decimal_def nat_of_digits_str_nat)

lemma length_str_nat_le: "0 < k \<Longrightarrow> length (str_nat n) \<le> k \<longleftrightarrow> n < 10 ^ k"
proof (induction n arbitrary: k rule: str_nat.induct)
  case (1 n)
  show ?case
  proof (cases "n < 10")
    case True
    have "(10::nat) ^ 1 \<le> 10 ^ k"
      using 1(2) by (intro power_increasing) simp_all
    with True 1(2) show ?thesis
      by (simp add: str_nat.simps [of n])
  next
    case False
    show ?thesis
    proof (cases "k = 1")
      case True
      have "str_nat (n div 10) \<noteq> []" using str_nat_head by blast
      then have "0 < length (str_nat (n div 10))" by simp
      with False True show ?thesis
        by (simp add: str_nat.simps [of n])
    next
      case k: False
      then obtain j where j: "k = Suc j" "0 < j"
        using 1(2) by (cases k) auto
      have "length (str_nat (n div 10)) \<le> j \<longleftrightarrow> n div 10 < 10 ^ j"
        using 1(1) [OF False j(2)] .
      also have "\<dots> \<longleftrightarrow> n < 10 ^ k"
        using j(1) by (simp add: div_less_iff_less_mult mult.commute)
      finally show ?thesis
        using False j(1) by (simp add: str_nat.simps [of n])
    qed
  qed
qed

lemma str_int_within_limit:
  "\<bar>i\<bar> < 10 ^ int_max_str_digits \<Longrightarrow> str_int i = Returns (decimal i)"
proof -
  assume a: "\<bar>i\<bar> < 10 ^ int_max_str_digits"
  have pos: "0 < int_max_str_digits" by (simp add: int_max_str_digits_def)
  have "nat \<bar>i\<bar> < 10 ^ int_max_str_digits"
    using a by (simp add: nat_less_iff)
  then have "length (str_nat (nat \<bar>i\<bar>)) \<le> int_max_str_digits"
    using length_str_nat_le [OF pos] by blast
  then show ?thesis by (simp add: str_int_def)
qed

lemma str_int_beyond_limit:
  "10 ^ int_max_str_digits \<le> \<bar>i\<bar> \<Longrightarrow> str_int i = Raises ValueError"
proof -
  assume a: "10 ^ int_max_str_digits \<le> \<bar>i\<bar>"
  have pos: "0 < int_max_str_digits" by (simp add: int_max_str_digits_def)
  have "\<not> nat \<bar>i\<bar> < 10 ^ int_max_str_digits"
    using a by (simp add: nat_less_iff)
  then have "\<not> length (str_nat (nat \<bar>i\<bar>)) \<le> int_max_str_digits"
    using length_str_nat_le [OF pos] by blast
  then show ?thesis by (simp add: str_int_def)
qed

lemma small_within_limit: "\<bar>i\<bar> < 10 ^ 4 \<Longrightarrow> \<bar>i :: int\<bar> < 10 ^ int_max_str_digits"
proof -
  assume a: "\<bar>i\<bar> < 10 ^ 4"
  have "(10::int) ^ 4 \<le> 10 ^ int_max_str_digits"
    by (intro power_increasing) (simp_all add: int_max_str_digits_def)
  with a show ?thesis by linarith
qed

lemma decimal_examples:
  "decimal 42 = ''42'' \<and> decimal (- 1203) = ''-1203'' \<and> decimal 0 = ''0''"
  by (simp add: decimal_def str_nat.simps)

subsection \<open>Plain functions\<close>

text \<open>
  C1: for every username, \<^verbatim>\<open>get_user_id\<close> returns the mapped id when the username is a
  key of the fixed mapping (1 for "Alice", 2 for "Bob") and \<^verbatim>\<open>None\<close> when it is not.
  The result is a value in either case: a miss does not raise.
\<close>

theorem get_user_id_lookup:
  "get_user_id ''Alice'' = PyInt 1 \<and> get_user_id ''Bob'' = PyInt 2
   \<and> (username \<noteq> ''Alice'' \<and> username \<noteq> ''Bob'' \<longrightarrow> get_user_id username = PyNone)"
  by (simp add: get_user_id_def dict_get_def users_by_name_def)

theorem get_user_id_lookup_witness:
  "get_user_id ''Alice'' = PyInt 1 \<and> get_user_id ''Bob'' = PyInt 2
   \<and> get_user_id ''Carol'' = PyNone"
  using get_user_id_lookup [of "''Carol''"] by simp

text \<open>
  C2: \<^verbatim>\<open>process\<close> branches on the run-time type of its argument. On an instance of
  \<^verbatim>\<open>int\<close> it returns the text "Processing number " followed by the value as the
  f-string formats it; on an instance of \<^verbatim>\<open>str\<close> it returns "Processing string "
  followed by the value between single quotes.
\<close>

text \<open>
  C2: as stated, \<^verbatim>\<open>process\<close> would return the text "Processing number {value}" for
  every instance of \<^verbatim>\<open>int\<close>. The integer \<open>10 ^ 4300\<close> has 4301 digits, one more than
  the conversion to text allows, and formatting it raises \<^verbatim>\<open>ValueError\<close>, which
  \<^verbatim>\<open>process\<close> does not catch.
\<close>

theorem process_large_int_counterexample:
  "isinstance (PyInt (10 ^ 4300)) IntT \<and> process (PyInt (10 ^ 4300)) = Raises ValueError"
proof -
  have "isinstance (PyInt (10 ^ int_max_str_digits)) IntT
        \<and> process (PyInt (10 ^ int_max_str_digits)) = Raises ValueError"
    by (simp add: process_def isinstance_def issubclass_def and_then_def str_int_beyond_limit)
  then show ?thesis
    unfolding int_max_str_digits_def .
qed

text \<open>
  C2, amended: \<^verbatim>\<open>process\<close> branches on the run-time type of its argument. On an
  integer of at most 4300 digits it returns "Processing number " followed by the decimal
  text of the integer (the text that reads back as that integer); on an integer of more
  digits the formatting raises \<^verbatim>\<open>ValueError\<close>; on \<^verbatim>\<open>True\<close> and \<^verbatim>\<open>False\<close>, which
  are instances of \<^verbatim>\<open>int\<close>, it returns "Processing number True" and "Processing
  number False"; on a string it returns "Processing string " followed by the string
  between single quotes.
\<close>

theorem process_int_str:
  "int_max_str_digits = 4300
   \<and> (\<bar>i\<bar> < 10 ^ int_max_str_digits \<longrightarrow>
        process (PyInt i) = Returns (PyStr (''Processing number '' @ decimal i)))
   \<and> (10 ^ int_max_str_digits \<le> \<bar>i\<bar> \<longrightarrow> process (PyInt i) = Raises ValueError)
   \<and> int_of_decimal (decimal i) = i
   \<and> process (PyBool True) = Returns (PyStr ''Processing number True'')
   \<and> process (PyBool False) = Returns (PyStr ''Processing number False'')
   \<and> process (PyStr s) = Returns (PyStr (''Processing string '' @ [CHR 0x27] @ s @ [CHR 0x27]))"
  by (simp add: process_def isinstance_def issubclass_def and_then_def str_bool_def
      str_int_within_limit str_int_beyond_limit int_of_decimal_decimal)
    (simp add: int_max_str_digits_def)

theorem process_int_str_witness:
  "process (PyInt 42) = Returns (PyStr ''Processing number 42'')
   \<and> process (PyInt (- 7)) = Returns (PyStr ''Processing number -7'')
   \<and> process (PyInt (- (10 ^ int_max_str_digits))) = Raises ValueError
   \<and> process (PyBool True) = Returns (PyStr ''Processing number True'')
   \<and> process (PyStr ''hi'') = Returns (PyStr (''Processing string 'hi'' @ [CHR 0x27]))"
proof -
  have a: "\<bar>42 :: int\<bar> < 10 ^ int_max_str_digits" "\<bar>- 7 :: int\<bar> < 10 ^ int_max_str_digits"
    by (rule small_within_limit, simp)+
  have b: "(10 :: int) ^ int_max_str_digits \<le> \<bar>- (10 ^ int_max_str_digits)\<bar>"
    by simp
  show ?thesis
    using process_int_str [of 42 "''hi''"] process_int_str [of "- 7" "''hi''"]
      process_int_str [of "- (10 ^ int_max_str_digits)" "''hi''"] a b
    by (simp add: decimal_def str_nat.simps)
qed

text \<open>
  C3: for all integers \<open>a\<close> and \<open>b\<close>, \<^verbatim>\<open>add(a, b)\<close> is their sum; on the literals 2 and 3
  it is the literal 5.
\<close>

theorem add_sum: "add a b = a + b \<and> add 2 3 = 5"
  by (simp add: add_def)

text \<open>
  C8: on a value that is neither an instance of \<^verbatim>\<open>int\<close> nor an instance of \<^verbatim>\<open>str\<close>,
  \<^verbatim>\<open>process\<close> takes neither branch and returns \<^verbatim>\<open>None\<close>, not a string.
\<close>

text \<open>
  C8: on a value that is neither an instance of \<^verbatim>\<open>int\<close> nor an instance of \<^verbatim>\<open>str\<close>,
  \<^verbatim>\<open>process\<close> takes neither branch and returns \<^verbatim>\<open>None\<close>, not a string.
\<close>

theorem process_fallthrough:
  "\<not> isinstance v IntT \<Longrightarrow> \<not> isinstance v StrT \<Longrightarrow> process v = Returns PyNone"
  by (simp add: process_def)

theorem process_fallthrough_witness:
  "\<not> isinstance (PyFloat (Fin (3 / 2))) IntT \<and> \<not> isinstance (PyFloat (Fin (3 / 2))) StrT
   \<and> process (PyFloat (Fin (3 / 2))) = Returns PyNone"
  using process_fallthrough [of "PyFloat (Fin (3 / 2))"]
  by (simp add: isinstance_def issubclass_def)

text \<open>
  C5: \<^verbatim>\<open>get_user_name\<close> looks the id up in the fixed mapping and returns the mapped
  name on a hit. As stated, a miss would give an absent value; the code passes the
  default "Unknown" to the lookup, and at the id 3, which is not a key, the result is
  that string and not \<^verbatim>\<open>None\<close>.
\<close>

theorem get_user_name_miss_counterexample:
  "users_by_id 3 = None \<and> get_user_name 3 = PyStr ''Unknown'' \<and> get_user_name 3 \<noteq> PyNone"
  by (simp add: get_user_name_def dict_get_def users_by_id_def UserID_def)

text \<open>
  C5, amended: for every id, \<^verbatim>\<open>get_user_name\<close> returns the mapped name on a hit
  ("Alice" for 1, "Bob" for 2) and the string "Unknown" on a miss.
\<close>

text \<open>
  C5, amended: for every id, \<^verbatim>\<open>get_user_name\<close> returns the mapped name on a hit
  ("Alice" for 1, "Bob" for 2) and the string "Unknown" on a miss.
\<close>

theorem get_user_name_lookup:
  "get_user_name (UserID 1) = PyStr ''Alice'' \<and> get_user_name (UserID 2) = PyStr ''Bob''
   \<and> (user_id \<noteq> UserID 1 \<and> user_id \<noteq> UserID 2 \<longrightarrow>
        get_user_name user_id = PyStr ''Unknown'')"
  by (simp add: get_user_name_def dict_get_def users_by_id_def UserID_def)

theorem get_user_name_lookup_witness:
  "get_user_name 1 = PyStr ''Alice'' \<and> get_user_name 2 = PyStr ''Bob''
   \<and> get_user_name 7 = PyStr ''Unknown''"
  using get_user_name_lookup [of 7] by (simp add: UserID_def)

subsection \<open>Classes\<close>

text \<open>
  C6: the attributes of \<^verbatim>\<open>Person\<close>, \<^verbatim>\<open>Classroom\<close>, \<^verbatim>\<open>PersonWithNickname\<close>, \<^verbatim>\<open>Box\<close>
  and \<^verbatim>\<open>School\<close> are the constructor's arguments, and every method
  (\<^verbatim>\<open>introduce\<close>, \<^verbatim>\<open>get_student_names\<close>, \<^verbatim>\<open>get_content\<close>, \<^verbatim>\<open>get_total_students\<close>)
  leaves its object as it found it.
\<close>

subsection \<open>Classes\<close>

text \<open>
  C6: the attributes of \<^verbatim>\<open>Person\<close>, \<^verbatim>\<open>Classroom\<close>, \<^verbatim>\<open>PersonWithNickname\<close>, \<^verbatim>\<open>Box\<close>
  and \<^verbatim>\<open>School\<close> are the constructor's arguments, and every method
  (\<^verbatim>\<open>introduce\<close>, \<^verbatim>\<open>get_student_names\<close>, \<^verbatim>\<open>get_content\<close>, \<^verbatim>\<open>get_total_students\<close>)
  leaves its object as it found it.
\<close>

theorem methods_leave_fields:
  "name (Person_init n a) = n \<and> age (Person_init n a) = a
   \<and> students (Classroom_init ps) = ps
   \<and> name_n (PersonWithNickname_init n a nick) = n
   \<and> age_n (PersonWithNickname_init n a nick) = a
   \<and> nickname (PersonWithNickname_init n a nick) = nick
   \<and> content (Box_init x) = x
   \<and> students_s (School_init ps) = ps
   \<and> snd (Person_introduce p) = p
   \<and> snd (Classroom_get_student_names c) = c
   \<and> snd (PersonWithNickname_introduce q) = q
   \<and> snd (Box_get_content b) = b
   \<and> snd (School_get_total_students s) = s"
  by (simp add: Person_init_def Classroom_init_def PersonWithNickname_init_def Box_init_def
      School_init_def Person_introduce_def Classroom_get_student_names_def
      PersonWithNickname_introduce_def Box_get_content_def School_get_total_students_def)

text \<open>
  C9: as stated, \<^verbatim>\<open>PersonWithNickname.introduce\<close> with the empty string as nickname
  would return the sentence giving name and age, for every age. With the age
  \<open>10 ^ 4300\<close>, of 4301 digits, formatting the age raises \<^verbatim>\<open>ValueError\<close> and no
  sentence is returned.
\<close>

theorem introduce_large_age_counterexample:
  "fst (PersonWithNickname_introduce
          (PersonWithNickname_init ''Alice'' (IntObj (10 ^ 4300)) (Some [])))
     = Raises ValueError"
proof -
  have "fst (PersonWithNickname_introduce
          (PersonWithNickname_init ''Alice'' (IntObj (10 ^ int_max_str_digits)) (Some [])))
     = Raises ValueError"
    by (simp add: PersonWithNickname_init_def PersonWithNickname_introduce_def and_then_def
        str_int_beyond_limit)
  then show ?thesis
    unfolding int_max_str_digits_def .
qed

text \<open>
  C9, amended: \<^verbatim>\<open>PersonWithNickname.introduce\<close> tests the truth value of the
  nickname. With the empty string as nickname its outcome is the one it has with no
  nickname: the sentence giving name and age when the age has at most 4300 digits (or is
  \<^verbatim>\<open>True\<close> or \<^verbatim>\<open>False\<close>), and \<^verbatim>\<open>ValueError\<close> when the age has more digits. Only
  a non-empty nickname gives the sentence with the nickname, for every age.
\<close>

theorem introduce_nickname_truthiness:
  "fst (PersonWithNickname_introduce (PersonWithNickname_init n a (Some [])))
     = fst (PersonWithNickname_introduce (PersonWithNickname_init n a None))
   \<and> (\<bar>i\<bar> < 10 ^ int_max_str_digits \<longrightarrow>
        fst (PersonWithNickname_introduce (PersonWithNickname_init n (IntObj i) None))
          = Returns (''My name is '' @ n @ '', and I am '' @ decimal i @ '' years old.''))
   \<and> (10 ^ int_max_str_digits \<le> \<bar>i\<bar> \<longrightarrow>
        fst (PersonWithNickname_introduce (PersonWithNickname_init n (IntObj i) None))
          = Raises ValueError)
   \<and> fst (PersonWithNickname_introduce (PersonWithNickname_init n (BoolObj b) None))
        = Returns (''My name is '' @ n @ '', and I am '' @ (if b then ''True'' else ''False'')
            @ '' years old.'')
   \<and> (nick \<noteq> [] \<longrightarrow>
        fst (PersonWithNickname_introduce (PersonWithNickname_init n a (Some nick)))
          = Returns (''My name is '' @ n @ '', but you can call me '' @ nick @ ''.''))"
  by (simp add: PersonWithNickname_init_def PersonWithNickname_introduce_def and_then_def
      str_bool_def str_int_within_limit str_int_beyond_limit)

theorem introduce_nickname_truthiness_witness:
  "fst (PersonWithNickname_introduce (PersonWithNickname_init ''Alice'' (IntObj 30) (Some [])))
     = Returns ''My name is Alice, and I am 30 years old.''
   \<and> fst (PersonWithNickname_introduce (PersonWithNickname_init ''Alice'' (IntObj 30) None))
     = Returns ''My name is Alice, and I am 30 years old.''
   \<and> fst (PersonWithNickname_introduce
        (PersonWithNickname_init ''Alice'' (IntObj (10 ^ int_max_str_digits)) None))
     = Raises ValueError
   \<and> fst (PersonWithNickname_introduce
        (PersonWithNickname_init ''Alice'' (IntObj 30) (Some ''Al'')))
     = Returns ''My name is Alice, but you can call me Al.''"
proof -
  have a: "\<bar>30 :: int\<bar> < 10 ^ int_max_str_digits"
    by (rule small_within_limit) simp
  have b: "(10 :: int) ^ int_max_str_digits \<le> \<bar>10 ^ int_max_str_digits\<bar>"
    by simp
  show ?thesis
    using introduce_nickname_truthiness [of "''Alice''" "IntObj 30" 30 True "''Al''"]
      introduce_nickname_truthiness
        [of "''Alice''" "IntObj 30" "10 ^ int_max_str_digits" True "''Al''"] a b
    by (simp add: decimal_def str_nat.simps)
qed

text \<open>
  C10: for a content \<open>x\<close> of any type, \<^verbatim>\<open>Box(x).get_content()\<close> is \<open>x\<close>.
\<close>

theorem box_round_trip: "fst (Box_get_content (Box_init x)) = x"
  by (simp add: Box_get_content_def Box_init_def)

subsection \<open>Filtering a data frame\<close>

subsection \<open>Filtering a data frame\<close>

lemma float_gt_strict: "float_gt x y \<Longrightarrow> \<not> float_gt y x \<and> x \<noteq> y"
  by (cases x; cases y) auto

lemma float_gt_NaN: "float_gt x NaN = False"
  by (cases x) simp_all

lemma bit_length_le: "m < 2 ^ k \<Longrightarrow> bit_length m \<le> k"
proof (induction k arbitrary: m)
  case 0
  then show ?case by (simp add: bit_length.simps)
next
  case (Suc k)
  then have "m div 2 < 2 ^ k" by simp
  then have "bit_length (m div 2) \<le> k" by (rule Suc.IH)
  then show ?case by (simp add: bit_length.simps [of m])
qed

lemma bit_length_power: "bit_length (2 ^ k) = Suc k"
  by (induction k) (simp_all add: bit_length.simps [of "Suc 0"] bit_length.simps [of 0]
      bit_length.simps [of "2 * _"])

lemma round_to_53_bits_exact: "m \<le> 2 ^ 53 \<Longrightarrow> round_to_53_bits m = m"
proof (cases "m = 2 ^ 53")
  case True
  have "bit_length m = 54"
    using bit_length_power [of 53] True by simp
  then show ?thesis
    by (simp add: round_to_53_bits_def True)
next
  case False
  assume "m \<le> 2 ^ 53"
  with False have "m < 2 ^ 53" by simp
  then have "bit_length m \<le> 53" by (rule bit_length_le)
  then show ?thesis
    by (simp add: round_to_53_bits_def)
qed

lemma float64_of_int_exact: "\<bar>v\<bar> \<le> 2 ^ 53 \<Longrightarrow> float64_of_int v = v"
proof -
  assume "\<bar>v\<bar> \<le> 2 ^ 53"
  then have "nat \<bar>v\<bar> \<le> 2 ^ 53" by (simp add: nat_le_iff)
  then have "round_to_53_bits (nat \<bar>v\<bar>) = nat \<bar>v\<bar>" by (rule round_to_53_bits_exact)
  then show ?thesis
    by (simp add: float64_of_int_def mult_sgn_abs)
qed

lemma to_float64_exact: "exact_cell c \<Longrightarrow> to_float64 c = entry_value c"
  by (cases c) (simp_all add: float64_of_int_exact)

lemma exceeds_exact: "exact_cell c \<Longrightarrow> exceeds_as_float64 t c = exceeds t c"
  by (simp add: exceeds_as_float64_def exceeds_def to_float64_exact)

lemma get_loc_Nil_iff: "get_loc cs key = [] \<longleftrightarrow> key \<notin> set cs"
  by (induction cs) auto

lemma get_loc_positions: "i \<in> set (get_loc cs key) \<longleftrightarrow> i < length cs \<and> cs ! i = key"
proof (induction cs arbitrary: i)
  case Nil
  then show ?case by simp
next
  case (Cons c cs)
  then show ?case by (cases i) auto
qed

lemma compare_each_numbers:
  "\<forall>c \<in> set s. is_number c \<Longrightarrow> compare_each s t = Returns (map (exceeds_as_float64 t) s)"
proof (induction s)
  case Nil
  then show ?case by simp
next
  case (Cons c s)
  then show ?case
    by (cases c) (simp_all add: and_then_def exceeds_as_float64_def)
qed

lemma series_gt_numbers:
  "\<forall>c \<in> set s. is_number c \<Longrightarrow> series_gt s t = Returns (map (exceeds_as_float64 t) s)"
proof (cases "t = NaN")
  case True
  have "exceeds_as_float64 NaN c = False" for c
    by (simp add: exceeds_as_float64_def float_gt_NaN split: option.splits)
  with True show ?thesis by (simp add: series_gt_def)
next
  case False
  assume "\<forall>c \<in> set s. is_number c"
  with False show ?thesis by (simp add: series_gt_def compare_each_numbers)
qed

lemma select_by_map: "map fst (filter snd (zip xs (map p xs))) = filter p xs"
  by (induction xs) simp_all

lemma filter_data_numbers:
  assumes "get_loc (columns df) ''value'' = [i]"
    and "\<forall>r \<in> set (rows df). is_number (cells r ! i)"
  shows "filter_data df t
           = Returns (df\<lparr>rows := filter (\<lambda>r. exceeds_as_float64 t (cells r ! i)) (rows df)\<rparr>)"
proof -
  let ?s = "map (\<lambda>r. cells r ! i) (rows df)"
  let ?m = "map (\<lambda>r. exceeds_as_float64 t (cells r ! i)) (rows df)"
  have col: "getitem_column df ''value'' = Returns ?s"
    using assms(1) by (simp add: getitem_column_def)
  have "\<forall>c \<in> set ?s. is_number c"
    using assms(2) by simp
  then have "series_gt ?s t = Returns (map (exceeds_as_float64 t) ?s)"
    by (rule series_gt_numbers)
  then have cmp: "series_gt ?s t = Returns ?m"
    by (simp add: comp_def)
  have sel: "getitem_mask df ?m
               = Returns (df\<lparr>rows := filter (\<lambda>r. exceeds_as_float64 t (cells r ! i)) (rows df)\<rparr>)"
    by (simp add: getitem_mask_def select_by_map)
  show ?thesis
    by (simp add: filter_data_def and_then_def col cmp sel)
qed

lemma filter_data_no_column:
  assumes "''value'' \<notin> set (columns df)"
  shows "filter_data df t = Raises (KeyError ''value'')"
proof -
  have "get_loc (columns df) ''value'' = []"
    using assms by (simp add: get_loc_Nil_iff)
  then show ?thesis
    by (simp add: filter_data_def and_then_def getitem_column_def)
qed

lemma float64_of_large: "float64_of_int (2 ^ 53 + 1) = 2 ^ 53"
  by (simp add: float64_of_int_def round_to_53_bits_def bit_length.simps)

lemma float64_of_int_examples:
  "float64_of_int (2 ^ 53 + 3) = 2 ^ 53 + 4 \<and> float64_of_int (- (2 ^ 53 + 1)) = - (2 ^ 53)
   \<and> float64_of_int (2 ^ 53 + 2) = 2 ^ 53 + 2 \<and> float64_of_int (2 ^ 54 + 3) = 2 ^ 54 + 4"
  by (simp add: float64_of_int_def round_to_53_bits_def bit_length.simps)

lemma series_gt_NaN: "series_gt s NaN = Returns (map (\<lambda>c. False) s)"
  by (simp add: series_gt_def)

lemma compare_each_string:
  "\<exists>c \<in> set s. \<not> is_number c \<Longrightarrow> compare_each s t = Raises TypeError"
proof (induction s)
  case Nil
  then show ?case by simp
next
  case (Cons c s)
  then show ?case
    by (cases c) (auto simp: and_then_def)
qed

lemma series_gt_string:
  "t \<noteq> NaN \<Longrightarrow> \<exists>c \<in> set s. \<not> is_number c \<Longrightarrow> series_gt s t = Raises TypeError"
  by (simp add: series_gt_def compare_each_string)

lemma filter_data_repeated_label:
  "filter_data \<lparr>columns = [''value'', ''id'', ''value''], rows = []\<rparr> t = NotModelled"
  by (simp add: filter_data_def getitem_column_def and_then_def)

text \<open>
  C4: as stated, \<^verbatim>\<open>filter_data\<close> would return the rows whose \<^verbatim>\<open>'value'\<close> entry is
  strictly greater than the threshold for every frame that has a \<^verbatim>\<open>'value'\<close> column.
  On a frame whose \<^verbatim>\<open>'value'\<close> column holds a string the comparison raises
  \<^verbatim>\<open>TypeError\<close> and no frame is returned. On an integer column the comparison is made
  after conversion to \<^verbatim>\<open>float64\<close>: the entry \<open>2 ^ 53 + 1\<close> is strictly greater than
  the threshold \<open>2 ^ 53\<close>, yet converts to \<open>2 ^ 53\<close> and its row is not returned.
\<close>

theorem filter_data_rows_counterexample:
  "get_loc (columns text_value_column) ''value'' = [0]
   \<and> filter_data text_value_column (Fin 10) = Raises TypeError
   \<and> get_loc (columns large_count) ''value'' = [0]
   \<and> exceeds (Fin (2 ^ 53)) (IntCell (2 ^ 53 + 1))
   \<and> filter_data large_count (Fin (2 ^ 53)) = Returns \<lparr>columns = [''value''], rows = []\<rparr>"
  using float64_of_large
  by (simp add: text_value_column_def large_count_def filter_data_def getitem_column_def
      series_gt_def getitem_mask_def and_then_def exceeds_def)

text \<open>
  C4, amended: for every frame that has one column labelled \<^verbatim>\<open>'value'\<close> whose entries
  are all numbers (integers, floats with NaN, booleans; no string) and every threshold,
  \<^verbatim>\<open>filter_data\<close> returns the frame with the same columns and exactly the rows whose
  \<^verbatim>\<open>'value'\<close> entry, converted to \<^verbatim>\<open>float64\<close>, is strictly greater than the
  threshold, in their order, and no other row. Where every entry is a float, a boolean
  or an integer of magnitude at most \<open>2 ^ 53\<close>, these are exactly the rows whose entry
  itself is strictly greater than the threshold.
\<close>

theorem filter_data_keeps_rows_above:
  assumes "get_loc (columns df) ''value'' = [i]"
    and "\<forall>r \<in> set (rows df). is_number (cells r ! i)"
  shows "columns df ! i = ''value''
     \<and> filter_data df threshold
           = Returns \<lparr>columns = columns df,
                      rows = filter (\<lambda>r. exceeds_as_float64 threshold (cells r ! i)) (rows df)\<rparr>
     \<and> ((\<forall>r \<in> set (rows df). exact_cell (cells r ! i)) \<longrightarrow>
          filter_data df threshold
            = Returns \<lparr>columns = columns df,
                       rows = filter (\<lambda>r. exceeds threshold (cells r ! i)) (rows df)\<rparr>)"
proof (intro conjI impI)
  have "i \<in> set (get_loc (columns df) ''value'')"
    using assms(1) by simp
  then show "columns df ! i = ''value''"
    by (simp add: get_loc_positions)
next
  show kept: "filter_data df threshold
           = Returns \<lparr>columns = columns df,
                      rows = filter (\<lambda>r. exceeds_as_float64 threshold (cells r ! i)) (rows df)\<rparr>"
    using filter_data_numbers [OF assms, of threshold] by simp
  assume "\<forall>r \<in> set (rows df). exact_cell (cells r ! i)"
  then have "filter (\<lambda>r. exceeds_as_float64 threshold (cells r ! i)) (rows df)
               = filter (\<lambda>r. exceeds threshold (cells r ! i)) (rows df)"
    by (intro filter_cong) (simp_all add: exceeds_exact)
  with kept show "filter_data df threshold
            = Returns \<lparr>columns = columns df,
                       rows = filter (\<lambda>r. exceeds threshold (cells r ! i)) (rows df)\<rparr>"
    by simp
qed

theorem filter_data_keeps_rows_above_witness:
  "filter_data readings (Fin 10)
     = Returns \<lparr>columns = [''id'', ''value''],
                rows = [\<lparr>label = 1, cells = [StrCell ''b'', FloatCell (Fin 15)]\<rparr>,
                        \<lparr>label = 3, cells = [StrCell ''d'', FloatCell (Fin (21 / 2))]\<rparr>]\<rparr>
   \<and> filter_data counts (Fin 10)
     = Returns \<lparr>columns = [''value'', ''ok''],
                rows = [\<lparr>label = 0, cells = [IntCell 11, BoolCell True]\<rparr>,
                        \<lparr>label = 3, cells = [IntCell 40, BoolCell True]\<rparr>]\<rparr>"
proof -
  have r1: "get_loc (columns readings) ''value'' = [1]"
    by (simp add: readings_def)
  have r2: "\<forall>r \<in> set (rows readings). is_number (cells r ! 1)"
    by (simp add: readings_def)
  have r3: "\<forall>r \<in> set (rows readings). exact_cell (cells r ! 1)"
    by (simp add: readings_def)
  have c1: "get_loc (columns counts) ''value'' = [0]"
    by (simp add: counts_def)
  have c2: "\<forall>r \<in> set (rows counts). is_number (cells r ! 0)"
    by (simp add: counts_def)
  have c3: "\<forall>r \<in> set (rows counts). exact_cell (cells r ! 0)"
    by (simp add: counts_def)
  have "filter_data readings (Fin 10)
          = Returns \<lparr>columns = columns readings,
                     rows = filter (\<lambda>r. exceeds (Fin 10) (cells r ! 1)) (rows readings)\<rparr>"
    using filter_data_keeps_rows_above [OF r1 r2, of "Fin 10"] r3 by blast
  moreover have "filter_data counts (Fin 10)
          = Returns \<lparr>columns = columns counts,
                     rows = filter (\<lambda>r. exceeds (Fin 10) (cells r ! 0)) (rows counts)\<rparr>"
    using filter_data_keeps_rows_above [OF c1 c2, of "Fin 10"] c3 by blast
  ultimately show ?thesis
    by (simp add: readings_def counts_def exceeds_def)
qed

text \<open>
  C7: as stated, every operation would return normally on every input of its annotated
  type, \<^verbatim>\<open>filter_data\<close> also on a frame without a \<^verbatim>\<open>'value'\<close> column. On such a
  frame the column lookup raises \<^verbatim>\<open>KeyError\<close>, which nothing catches.
\<close>

theorem filter_data_missing_column_counterexample:
  "''value'' \<notin> set (columns no_value_column)
   \<and> filter_data no_value_column (Fin 10) = Raises (KeyError ''value'')"
  by (simp add: no_value_column_def filter_data_def getitem_column_def and_then_def)

text \<open>
  C7, amended: no operation validates its arguments or handles exceptions, so an error
  of a library operation reaches the caller: on a frame without a \<^verbatim>\<open>'value'\<close> column
  \<^verbatim>\<open>filter_data\<close> raises \<^verbatim>\<open>KeyError('value')\<close>. \<^verbatim>\<open>filter_data\<close> returns normally
  on every frame with one column labelled \<^verbatim>\<open>'value'\<close> whose entries are all numbers,
  and \<^verbatim>\<open>get_user_name\<close> returns a string for every id.
\<close>

theorem filter_data_returns_or_raises:
  "(\<exists>s. get_user_name user_id = PyStr s)
   \<and> (''value'' \<notin> set (columns df) \<longrightarrow> filter_data df threshold = Raises (KeyError ''value''))
   \<and> (get_loc (columns df) ''value'' = [i] \<and> (\<forall>r \<in> set (rows df). is_number (cells r ! i))
        \<longrightarrow> (\<exists>out. filter_data df threshold = Returns out))"
proof (intro conjI impI)
  show "\<exists>s. get_user_name user_id = PyStr s"
    by (simp add: get_user_name_def dict_get_def users_by_id_def)
next
  assume "''value'' \<notin> set (columns df)"
  then show "filter_data df threshold = Raises (KeyError ''value'')"
    by (rule filter_data_no_column)
next
  assume "get_loc (columns df) ''value'' = [i] \<and> (\<forall>r \<in> set (rows df). is_number (cells r ! i))"
  then show "\<exists>out. filter_data df threshold = Returns out"
    using filter_data_numbers [of df i threshold] by simp
qed

theorem filter_data_returns_or_raises_witness:
  "(\<exists>s. get_user_name 7 = PyStr s)
   \<and> filter_data no_value_column (Fin 10) = Raises (KeyError ''value'')
   \<and> (\<exists>out. filter_data counts (Fin 10) = Returns out)"
proof -
  have miss: "''value'' \<notin> set (columns no_value_column)"
    by (simp add: no_value_column_def)
  have c: "get_loc (columns counts) ''value'' = [0]
            \<and> (\<forall>r \<in> set (rows counts). is_number (cells r ! 0))"
    by (simp add: counts_def)
  show ?thesis
    using filter_data_returns_or_raises [of 7 no_value_column "Fin 10" 0]
      filter_data_returns_or_raises [of 7 counts "Fin 10" 0] miss c
    by blast
qed

end
